theory Spec2Isabelle
  imports Main "HOL-Library.Word"
begin

section \<open>Python values used by the link builder\<close>

text \<open>
  Exceptions are values. The link builder can raise two: \<open>ZeroDivisionError\<close> from
  \<open>//\<close>, and \<open>KeyError\<close> (with the missing key) from a dictionary subscript.
\<close>

datatype py_error = ZeroDivisionError | KeyError string

text \<open>
  \<open>str(n)\<close> for a Python integer: decimal digits, most significant first, no leading
  zero, a minus sign in front of a negative number.
\<close>

definition digit_char :: "nat \<Rightarrow> char" where
  "digit_char d = ''0123456789'' ! d"

fun str_nat :: "nat \<Rightarrow> string" where
  "str_nat n = (if n < 10 then [digit_char n] else str_nat (n div 10) @ [digit_char (n mod 10)])"

declare str_nat.simps [simp del]

definition str_int :: "int \<Rightarrow> string" where
  "str_int i = (if i < 0 then CHR ''-'' # str_nat (nat (- i)) else str_nat (nat i))"

text \<open>
  The values a query-parameter dictionary holds: the integers \<open>skip\<close> and \<open>limit\<close>, and
  whatever the caller's filters hold, which the f-string \<open>f"{k}={v}"\<close> renders with \<open>str\<close>.
\<close>

datatype pyval = PyInt int | PyStr string

fun py_str :: "pyval \<Rightarrow> string" where
  "py_str (PyInt i) = str_int i"
| "py_str (PyStr s) = s"

text \<open>
  A Python \<open>dict\<close> keeps its keys in insertion order, and \<open>d[k] = v\<close> on a key already
  present replaces the value where the key stands. The model is an association list with
  that assignment; \<open>dict_update\<close> is \<open>d.update(other)\<close>.
\<close>

type_synonym 'v pydict = "(string \<times> 'v) list"

fun dict_set :: "'v pydict \<Rightarrow> string \<Rightarrow> 'v \<Rightarrow> 'v pydict" where
  "dict_set [] k v = [(k, v)]"
| "dict_set ((k', v') # d) k v = (if k' = k then (k, v) # d else (k', v') # dict_set d k v)"

fun dict_update :: "'v pydict \<Rightarrow> 'v pydict \<Rightarrow> 'v pydict" where
  "dict_update d [] = d"
| "dict_update d ((k, v) # other) = dict_update (dict_set d k v) other"

fun dict_get :: "'v pydict \<Rightarrow> string \<Rightarrow> py_error + 'v" where
  "dict_get [] k = Inl (KeyError k)"
| "dict_get ((k', v') # d) k = (if k' = k then Inr v' else dict_get d k)"

text \<open>\<open>sep.join(parts)\<close>.\<close>

fun join :: "string \<Rightarrow> string list \<Rightarrow> string" where
  "join sep [] = []"
| "join sep [x] = x"
| "join sep (x # y # ys) = x @ sep @ join sep (y # ys)"

section \<open>The link builder (app/utils/link\_generation.py)\<close>

text \<open>
  Modelled from the spec: the schema classes \<open>Link\<close> and \<open>PaginationLink\<close>
  (app/schemas) are not among the sources. A link is a relation name and a target
  address, the two fields every constructor call of the link builder supplies; the
  fields it never sets keep whatever default the schema gives them.
\<close>

record Link =
  rel :: string
  href :: string

record PaginationLink =
  plink_rel :: string
  plink_href :: string

text \<open>\<open>str(uuid)\<close>: 32 lower-case hexadecimal digits in groups of 8-4-4-4-12.\<close>

type_synonym UUID = "128 word"

definition hex_char :: "nat \<Rightarrow> char" where
  "hex_char d = ''0123456789abcdef'' ! d"

fun hex_fixed :: "nat \<Rightarrow> nat \<Rightarrow> string" where
  "hex_fixed 0 n = []"
| "hex_fixed (Suc w) n = hex_fixed w (n div 16) @ [hex_char (n mod 16)]"

definition str_uuid :: "UUID \<Rightarrow> string" where
  "str_uuid u =
     (let hex = hex_fixed 32 (unat u)
      in take 8 hex @ ''-'' @ take 4 (drop 8 hex) @ ''-'' @ take 4 (drop 12 hex) @ ''-''
         @ take 4 (drop 16 hex) @ ''-'' @ drop 20 hex)"

text \<open>
  \<open>create_pagination_link\<close>: the two subscripts \<open>params['skip']\<close> and \<open>params['limit']\<close>
  raise \<open>KeyError\<close> on a dictionary without the key, \<open>skip\<close> first.
\<close>

definition create_pagination_link ::
  "string \<Rightarrow> string \<Rightarrow> pyval pydict \<Rightarrow> py_error + PaginationLink" where
  "create_pagination_link rel_name base_url params =
     (case dict_get params ''skip'' of
        Inl e \<Rightarrow> Inl e
      | Inr s \<Rightarrow>
          (case dict_get params ''limit'' of
             Inl e \<Rightarrow> Inl e
           | Inr l \<Rightarrow>
               (let query_string = ''skip='' @ py_str s @ ''&limit='' @ py_str l
                in Inr \<lparr>plink_rel = rel_name, plink_href = base_url @ ''?'' @ query_string\<rparr>)))"

text \<open>\<open>create_user_links\<close>; the \<open>request\<close> argument is not read.\<close>

definition create_user_links :: "UUID \<Rightarrow> 'r \<Rightarrow> Link pydict" where
  "create_user_links user_id request =
     (let base_url = ''http://testserver''
      in [(''self'', \<lparr>rel = ''self'', href = base_url @ ''/users/'' @ str_uuid user_id\<rparr>),
          (''update'', \<lparr>rel = ''update'', href = base_url @ ''/users/'' @ str_uuid user_id\<rparr>),
          (''delete'', \<lparr>rel = ''delete'', href = base_url @ ''/users/'' @ str_uuid user_id\<rparr>)])"

text \<open>
  \<open>generate_pagination_links\<close>. \<open>filters\<close> is \<open>None\<close> or a dictionary, and
  \<open>if filters:\<close> is false for both \<open>None\<close> and the empty dictionary. The floor division
  \<open>//\<close> in the \<open>last\<close> link raises \<open>ZeroDivisionError\<close> when \<open>limit\<close> is 0; on integers
  HOL's \<open>div\<close> rounds towards minus infinity as \<open>//\<close> does. The five keys are distinct, so
  the dictionary display with its two \<open>**\<close> unpackings is the concatenation below.
\<close>

definition generate_pagination_links ::
  "'r \<Rightarrow> int \<Rightarrow> int \<Rightarrow> int \<Rightarrow> pyval pydict option \<Rightarrow> py_error + Link pydict" where
  "generate_pagination_links request skip limit total_items filters =
     (let base_url = ''http://testserver/users'';
          query_params = [(''skip'', PyInt skip), (''limit'', PyInt limit)];
          query_params =
            (case filters of
               None \<Rightarrow> query_params
             | Some f \<Rightarrow> if f = [] then query_params else dict_update query_params f);
          query_string = join ''&'' (map (\<lambda>(k, v). k @ ''='' @ py_str v) query_params)
      in if limit = 0 then Inl ZeroDivisionError
         else Inr
           ([(''self'', \<lparr>rel = ''self'', href = base_url @ ''?'' @ query_string\<rparr>),
             (''first'', \<lparr>rel = ''first'', href = base_url @ ''?skip=0&limit='' @ str_int limit\<rparr>),
             (''last'', \<lparr>rel = ''last'',
                href = base_url @ ''?skip=''
                       @ str_int (max 0 (((total_items - 1) div limit) * limit))
                       @ ''&limit='' @ str_int limit\<rparr>)]
            @ (if skip + limit < total_items
               then [(''next'', \<lparr>rel = ''next'',
                        href = base_url @ ''?skip='' @ str_int (skip + limit)
                               @ ''&limit='' @ str_int limit\<rparr>)]
               else [])
            @ (if skip > 0
               then [(''prev'', \<lparr>rel = ''prev'',
                        href = base_url @ ''?skip='' @ str_int (max 0 (skip - limit))
                               @ ''&limit='' @ str_int limit\<rparr>)]
               else [])))"

text \<open>\<open>create_verification_link\<close>.\<close>

definition create_verification_link :: "string \<Rightarrow> string" where
  "create_verification_link token = ''http://testserver/verify_email?token='' @ token"

section \<open>Reading a link back\<close>

text \<open>
  What a client sees in a link: the query string is the text after the first \<open>?\<close>, its
  parameters are separated by \<open>&\<close>, and each is a name, \<open>=\<close>, and a value.
\<close>

fun split_on :: "char \<Rightarrow> string \<Rightarrow> string list" where
  "split_on c [] = [[]]"
| "split_on c (x # xs) =
     (if x = c then [] # split_on c xs
      else (case split_on c xs of [] \<Rightarrow> [[x]] | y # ys \<Rightarrow> (x # y) # ys))"

definition query_of :: "string \<Rightarrow> string" where
  "query_of url = tl (dropWhile (\<lambda>x. x \<noteq> CHR ''?'') url)"

definition query_pairs :: "string \<Rightarrow> (string \<times> string) list" where
  "query_pairs url =
     map (\<lambda>seg. (takeWhile (\<lambda>x. x \<noteq> CHR ''='') seg, tl (dropWhile (\<lambda>x. x \<noteq> CHR ''='') seg)))
         (split_on CHR ''&'' (query_of url))"

definition query_names :: "string \<Rightarrow> string list" where
  "query_names url = map fst (query_pairs url)"

text \<open>
  Reading a decimal numeral back, as \<open>int(s)\<close> would: it lets a statement about the text
  of a parameter be a statement about the number.
\<close>

definition digit_val :: "char \<Rightarrow> nat" where
  "digit_val c = of_char c - 48"

definition parse_nat :: "string \<Rightarrow> nat" where
  "parse_nat s = foldl (\<lambda>a c. 10 * a + digit_val c) 0 s"

definition parse_int :: "string \<Rightarrow> int" where
  "parse_int s = (if s \<noteq> [] \<and> hd s = CHR ''-'' then - int (parse_nat (tl s)) else int (parse_nat s))"


definition has_link :: "Link pydict \<Rightarrow> string \<Rightarrow> bool" where
  "has_link links k = (map_of links k \<noteq> None)"

section \<open>The route handlers (app/routers/user\_routes.py)\<close>

subsection \<open>Exceptions, requests and responses\<close>

text \<open>
  What a handler can raise: FastAPI's \<open>HTTPException(status_code, detail)\<close>, or any other
  exception, kept as the text \<open>str(e)\<close> gives for it. \<open>HTTPException\<close> is a subclass of
  \<open>Exception\<close>, so \<open>except Exception\<close> catches both. \<open>str\<close> of an \<open>HTTPException\<close> is
  \<open>f"{status_code}: {detail}"\<close> (Starlette's \<open>__str__\<close>).
\<close>

datatype exn = HTTPException nat string | Exception string

fun str_exn :: "exn \<Rightarrow> string" where
  "str_exn (HTTPException status_code detail) = str_nat status_code @ '': '' @ detail"
| "str_exn (Exception msg) = msg"

text \<open>
  Modelled from the spec: the model and schema classes \<open>User\<close>, \<open>UserRole\<close>,
  \<open>UserCreate\<close>, \<open>UserResponse\<close> and \<open>TokenResponse\<close> (app/models, app/schemas) are not
  among the sources. \<open>User\<close> holds the attributes the handlers read; a role is an
  enumeration member, of which the handlers read the \<open>name\<close>; \<open>UserResponse\<close> is built
  from the same attributes and the links; \<open>UserCreate\<close> holds the parameters the
  docstring of \<open>register\<close> lists. The identifier field is \<open>id'\<close>, since \<open>id\<close> is HOL's
  identity function. Timestamps are seconds. What the schema classes validate when an
  instance is built is not modelled.
\<close>

record UserRole =
  name :: string

record User =
  id' :: UUID
  email :: string
  nickname :: string
  first_name :: "string option"
  last_name :: "string option"
  bio :: "string option"
  profile_picture_url :: "string option"
  linkedin_profile_url :: "string option"
  github_profile_url :: "string option"
  role :: UserRole
  is_professional :: bool
  last_login_at :: "int option"
  created_at :: int
  updated_at :: int

record UserResponse = User +
  links :: "Link pydict"

record UserCreate =
  email :: string
  nickname :: string
  password :: string
  first_name :: "string option"
  last_name :: "string option"
  bio :: "string option"
  profile_picture_url :: "string option"
  linkedin_profile_url :: "string option"
  github_profile_url :: "string option"

record OAuth2PasswordRequestForm =
  username :: string
  password :: string

record 'tok TokenResponse =
  access_token :: 'tok
  token_type :: string

record Settings =
  access_token_expire_minutes :: int

text \<open>\<open>timedelta(minutes=m)\<close>, in seconds.\<close>

definition timedelta_minutes :: "int \<Rightarrow> int" where
  "timedelta_minutes m = 60 * m"

subsection \<open>The collaborators\<close>

text \<open>
  Modelled from the spec: \<open>UserService\<close> (app/services/user\_service.py) and
  \<open>JWTService\<close> (app/services/jwt\_service.py) are not among the sources. The handlers
  take them as parameters: the methods they call, over a database session of any type
  \<open>'db\<close>, each returning the User entity or the not-found indicator \<open>None\<close>, or raising.
  \<open>create\<close> and \<open>login_user\<close> may change the database and return the new one; \<open>create\<close>
  includes what it does with the email service it is handed.
\<close>

record 'db UserService =
  get_by_email :: "'db \<Rightarrow> string \<Rightarrow> exn + User option"
  get_by_nickname :: "'db \<Rightarrow> string \<Rightarrow> exn + User option"
  create :: "'db \<Rightarrow> UserCreate \<Rightarrow> (exn + User option) \<times> 'db"
  is_account_locked :: "'db \<Rightarrow> string \<Rightarrow> exn + bool"
  login_user :: "'db \<Rightarrow> string \<Rightarrow> string \<Rightarrow> (exn + User option) \<times> 'db"

record 'tok JWTService =
  create_access_token :: "pyval pydict \<Rightarrow> int \<Rightarrow> exn + 'tok"

subsection \<open>\<open>register\<close>\<close>

text \<open>
  The text of the \<open>AttributeError\<close> that \<open>created_user.id\<close> raises when \<open>create\<close> returned
  \<open>None\<close>.
\<close>

definition none_has_no_attribute :: "string \<Rightarrow> string" where
  "none_has_no_attribute a =
     [CHR 0x27] @ ''NoneType'' @ [CHR 0x27] @ '' object has no attribute '' @ [CHR 0x27] @ a @ [CHR 0x27]"

text \<open>The body of the \<open>try\<close> block of \<open>register\<close>.\<close>

definition register_try ::
  "'db UserService \<Rightarrow> UserCreate \<Rightarrow> 'r \<Rightarrow> 'db \<Rightarrow> (exn + UserResponse) \<times> 'db" where
  "register_try svc user_data request db =
     (case get_by_email svc db (UserCreate.email user_data) of
        Inl e \<Rightarrow> (Inl e, db)
      | Inr existing_user \<Rightarrow>
          if existing_user \<noteq> None
          then (Inl (HTTPException 400 ''Email already registered''), db)
          else
            (case get_by_nickname svc db (UserCreate.nickname user_data) of
               Inl e \<Rightarrow> (Inl e, db)
             | Inr existing_nickname \<Rightarrow>
                 if existing_nickname \<noteq> None
                 then (Inl (HTTPException 400 ''Nickname already taken''), db)
                 else
                   (case create svc db user_data of
                      (Inl e, db') \<Rightarrow> (Inl e, db')
                    | (Inr None, db') \<Rightarrow> (Inl (Exception (none_has_no_attribute ''id'')), db')
                    | (Inr (Some created_user), db') \<Rightarrow>
                        (Inr \<lparr>id' = id' created_user,
                              email = User.email created_user,
                              nickname = User.nickname created_user,
                              first_name = User.first_name created_user,
                              last_name = User.last_name created_user,
                              bio = User.bio created_user,
                              profile_picture_url = User.profile_picture_url created_user,
                              linkedin_profile_url = User.linkedin_profile_url created_user,
                              github_profile_url = User.github_profile_url created_user,
                              role = role created_user,
                              is_professional = is_professional created_user,
                              last_login_at = last_login_at created_user,
                              created_at = created_at created_user,
                              updated_at = updated_at created_user,
                              links = create_user_links (id' created_user) request\<rparr>, db'))))"

text \<open>
  \<open>register\<close>: the \<open>try\<close> block under its one handler, \<open>except Exception as e\<close>, which
  turns whatever the block raised into \<open>HTTPException(500, detail=str(e))\<close>.
\<close>

definition register ::
  "'db UserService \<Rightarrow> UserCreate \<Rightarrow> 'r \<Rightarrow> 'db \<Rightarrow> (exn + UserResponse) \<times> 'db" where
  "register svc user_data request db =
     (case register_try svc user_data request db of
        (Inl e, db') \<Rightarrow> (Inl (HTTPException 500 (str_exn e)), db')
      | (Inr response, db') \<Rightarrow> (Inr response, db'))"

subsection \<open>\<open>login\<close>\<close>

text \<open>The body of the \<open>try\<close> block of \<open>login\<close>.\<close>

definition login_try ::
  "'db UserService \<Rightarrow> 'tok JWTService \<Rightarrow> Settings \<Rightarrow> OAuth2PasswordRequestForm \<Rightarrow> 'db
     \<Rightarrow> (exn + 'tok TokenResponse) \<times> 'db" where
  "login_try svc jwt settings form_data session =
     (case is_account_locked svc session (username form_data) of
        Inl e \<Rightarrow> (Inl e, session)
      | Inr locked \<Rightarrow>
          if locked
          then (Inl (HTTPException 400 ''Account locked due to too many failed login attempts.''),
                session)
          else
            (case login_user svc session (username form_data)
                    (OAuth2PasswordRequestForm.password form_data) of
               (Inl e, session') \<Rightarrow> (Inl e, session')
             | (Inr None, session') \<Rightarrow>
                 (Inl (HTTPException 401 ''Incorrect email or password''), session')
             | (Inr (Some user), session') \<Rightarrow>
                 (let access_token_expires =
                        timedelta_minutes (access_token_expire_minutes settings)
                  in case create_access_token jwt
                            [(''sub'', PyStr (User.email user)),
                             (''role'', PyStr (name (role user)))]
                            access_token_expires of
                       Inl e \<Rightarrow> (Inl e, session')
                     | Inr token \<Rightarrow>
                         (Inr \<lparr>access_token = token, token_type = ''bearer''\<rparr>,
                          session'))))"

text \<open>
  \<open>login\<close>: the \<open>try\<close> block under its two handlers. \<open>except HTTPException: raise\<close> lets
  an \<open>HTTPException\<close> through as it is; \<open>except Exception\<close> replaces any other exception
  by a fixed \<open>HTTPException(500, ...)\<close>.
\<close>

definition login ::
  "'db UserService \<Rightarrow> 'tok JWTService \<Rightarrow> Settings \<Rightarrow> OAuth2PasswordRequestForm \<Rightarrow> 'db
     \<Rightarrow> (exn + 'tok TokenResponse) \<times> 'db" where
  "login svc jwt settings form_data session =
     (case login_try svc jwt settings form_data session of
        (Inl (HTTPException status_code detail), session') \<Rightarrow>
          (Inl (HTTPException status_code detail), session')
      | (Inl (Exception msg), session') \<Rightarrow>
          (Inl (HTTPException 500
             ''An unexpected error occurred during authentication. Please try again later.''),
           session')
      | (Inr response, session') \<Rightarrow> (Inr response, session'))"

subsection \<open>The token issuer and a user service in memory\<close>

text \<open>
  Modelled from the spec: \<open>JWTService.create_access_token\<close> is not among the sources.
  The spec's token issuer accepts a claims mapping and a time-to-live and returns a
  signed token embedding an expiry derived from the current time plus the time-to-live.
  The token is modelled by its payload, the claims with the expiry claim \<open>exp\<close> added;
  the signature and the encoding are not modelled. \<open>now\<close> is the current time.
\<close>

record Token =
  payload :: "pyval pydict"

definition spec_create_access_token :: "int \<Rightarrow> pyval pydict \<Rightarrow> int \<Rightarrow> exn + Token" where
  "spec_create_access_token now data expires_delta =
     Inr \<lparr>payload = dict_set data ''exp'' (PyInt (now + expires_delta))\<rparr>"

definition spec_JWTService :: "int \<Rightarrow> Token JWTService" where
  "spec_JWTService now = \<lparr>create_access_token = spec_create_access_token now\<rparr>"

text \<open>
  Modelled from the spec: \<open>UserService\<close> is not among the sources. The spec's persistence
  collaborator does CRUD, credential verification and lockout tracking, and its methods
  return the User entity or a not-found indicator. This instance keeps the accounts in
  a list: a user, the credential and the lock flag. It serves to run the handlers on
  concrete requests.
\<close>

record Account =
  user :: User
  credential :: string
  locked :: bool

definition find_by :: "(User \<Rightarrow> string) \<Rightarrow> Account list \<Rightarrow> string \<Rightarrow> Account option" where
  "find_by field db v = find (\<lambda>a. field (user a) = v) db"

definition new_user :: "Account list \<Rightarrow> UserCreate \<Rightarrow> User" where
  "new_user db d =
     \<lparr>id' = of_nat (length db) + 1, email = UserCreate.email d, nickname = UserCreate.nickname d,
      first_name = UserCreate.first_name d, last_name = UserCreate.last_name d,
      bio = UserCreate.bio d, profile_picture_url = UserCreate.profile_picture_url d,
      linkedin_profile_url = UserCreate.linkedin_profile_url d,
      github_profile_url = UserCreate.github_profile_url d,
      role = \<lparr>name = ''USER''\<rparr>, is_professional = False, last_login_at = None,
      created_at = 0, updated_at = 0\<rparr>"

definition memory_UserService :: "Account list UserService" where
  "memory_UserService =
     \<lparr>get_by_email = (\<lambda>db e. Inr (map_option user (find_by User.email db e))),
      get_by_nickname = (\<lambda>db n. Inr (map_option user (find_by User.nickname db n))),
      create = (\<lambda>db d.
        (Inr (Some (new_user db d)),
         db @ [\<lparr>user = new_user db d, credential = UserCreate.password d, locked = False\<rparr>])),
      is_account_locked = (\<lambda>db u.
        Inr (case find_by User.email db u of None \<Rightarrow> False | Some a \<Rightarrow> locked a)),
      login_user = (\<lambda>db u p.
        (Inr (case find_by User.email db u of
                None \<Rightarrow> None
              | Some a \<Rightarrow> if credential a = p then Some (user a) else None), db))\<rparr>"

text \<open>Two accounts, one of them locked, and requests against them.\<close>

definition ann :: User where
  "ann = \<lparr>id' = 1, email = ''ann@example.com'', nickname = ''ann'',
          first_name = Some ''Ann'', last_name = None, bio = None, profile_picture_url = None,
          linkedin_profile_url = None, github_profile_url = None, role = \<lparr>name = ''ADMIN''\<rparr>,
          is_professional = False, last_login_at = None, created_at = 0, updated_at = 0\<rparr>"

definition bob :: User where
  "bob = \<lparr>id' = 2, email = ''bob@example.com'', nickname = ''bob'',
          first_name = Some ''Bob'', last_name = None, bio = None, profile_picture_url = None,
          linkedin_profile_url = None, github_profile_url = None, role = \<lparr>name = ''USER''\<rparr>,
          is_professional = False, last_login_at = None, created_at = 0, updated_at = 0\<rparr>"

definition two_accounts :: "Account list" where
  "two_accounts =
     [\<lparr>user = ann, credential = ''Secure*1234'', locked = False\<rparr>,
      \<lparr>user = bob, credential = ''Secure*5678'', locked = True\<rparr>]"

definition ann_again :: UserCreate where
  "ann_again = \<lparr>email = ''ann@example.com'', nickname = ''annie'', password = ''Other*1234'',
                first_name = Some ''Ann'', last_name = None, bio = None,
                profile_picture_url = None, linkedin_profile_url = None,
                github_profile_url = None\<rparr>"

definition settings30 :: Settings where
  "settings30 = \<lparr>access_token_expire_minutes = 30\<rparr>"

definition ann_login :: OAuth2PasswordRequestForm where
  "ann_login = \<lparr>username = ''ann@example.com'', password = ''Secure*1234''\<rparr>"

definition ann_wrong_password :: OAuth2PasswordRequestForm where
  "ann_wrong_password = \<lparr>username = ''ann@example.com'', password = ''guess''\<rparr>"

definition bob_login :: OAuth2PasswordRequestForm where
  "bob_login = \<lparr>username = ''bob@example.com'', password = ''Secure*5678''\<rparr>"

section \<open>The mail dispatcher (app/utils/smtp\_connection.py)\<close>
























section \<open>Facts about the rendering of integers and the reading of links\<close>

lemma str_nat_small: "n < 10 \<Longrightarrow> str_nat n = [digit_char n]"
  by (simp add: str_nat.simps)

lemma str_nat_big: "10 \<le> n \<Longrightarrow> str_nat n = str_nat (n div 10) @ [digit_char (n mod 10)]"
  by (subst str_nat.simps) simp

lemma digit_char_in: "d < 10 \<Longrightarrow> digit_char d \<in> set ''0123456789''"
proof -
  assume "d < 10"
  then have "d < length ''0123456789''" by simp
  then have "''0123456789'' ! d \<in> set ''0123456789''" by (rule nth_mem)
  then show ?thesis by (simp only: digit_char_def)
qed

lemma str_nat_chars: "set (str_nat n) \<subseteq> set ''0123456789''"
proof (induction n rule: str_nat.induct)
  case (1 n)
  show ?case
  proof (cases "n < 10")
    case True
    then show ?thesis using digit_char_in [of n] by (simp add: str_nat_small)
  next
    case False
    have "n mod 10 < 10" by simp
    then have "digit_char (n mod 10) \<in> set ''0123456789''" by (rule digit_char_in)
    with False "1.IH" show ?thesis by (simp add: str_nat_big)
  qed
qed

lemma str_nat_no_amp: "CHR ''&'' \<notin> set (str_nat n)"
proof
  assume "CHR ''&'' \<in> set (str_nat n)"
  with str_nat_chars [of n] have "CHR ''&'' \<in> set ''0123456789''" by (rule subsetD)
  then show False by simp
qed

lemma str_nat_no_eq: "CHR ''='' \<notin> set (str_nat n)"
proof
  assume "CHR ''='' \<in> set (str_nat n)"
  with str_nat_chars [of n] have "CHR ''='' \<in> set ''0123456789''" by (rule subsetD)
  then show False by simp
qed

lemma str_int_no_amp: "CHR ''&'' \<notin> set (str_int i)"
  by (simp add: str_int_def str_nat_no_amp)

lemma str_int_no_eq: "CHR ''='' \<notin> set (str_int i)"
  by (simp add: str_int_def str_nat_no_eq)

lemma split_on_no_sep: "c \<notin> set xs \<Longrightarrow> split_on c xs = [xs]"
  by (induction xs) auto

lemma split_on_append: "c \<notin> set xs \<Longrightarrow> split_on c (xs @ c # ys) = xs # split_on c ys"
  by (induction xs) auto

lemma query_of_append: "CHR ''?'' \<notin> set base \<Longrightarrow> query_of (base @ CHR ''?'' # q) = q"
proof -
  assume a: "CHR ''?'' \<notin> set base"
  then have "dropWhile (\<lambda>x. x \<noteq> CHR ''?'') (base @ CHR ''?'' # q) = CHR ''?'' # q"
    by (induction base) auto
  then show ?thesis by (simp add: query_of_def)
qed

lemma query_pairs_skip_limit:
  assumes "CHR ''?'' \<notin> set base"
    and "CHR ''&'' \<notin> set a" and "CHR ''='' \<notin> set a"
    and "CHR ''&'' \<notin> set b" and "CHR ''='' \<notin> set b"
  shows "query_pairs (base @ ''?skip='' @ a @ ''&limit='' @ b) = [(''skip'', a), (''limit'', b)]"
proof -
  have q: "query_of (base @ ''?skip='' @ a @ ''&limit='' @ b) = ''skip='' @ a @ ''&limit='' @ b"
    using query_of_append [OF assms(1), of "''skip='' @ a @ ''&limit='' @ b"] by simp
  have "CHR ''&'' \<notin> set (''skip='' @ a)" using assms(2) by simp
  then have "split_on CHR ''&'' ((''skip='' @ a) @ CHR ''&'' # (''limit='' @ b))
          = (''skip='' @ a) # split_on CHR ''&'' (''limit='' @ b)"
    by (rule split_on_append)
  moreover have "CHR ''&'' \<notin> set (''limit='' @ b)" using assms(4) by simp
  then have "split_on CHR ''&'' (''limit='' @ b) = [''limit='' @ b]"
    by (rule split_on_no_sep)
  ultimately have s: "split_on CHR ''&'' (''skip='' @ a @ ''&limit='' @ b)
          = [''skip='' @ a, ''limit='' @ b]"
    by simp
  show ?thesis
    unfolding query_pairs_def q s by simp
qed

lemma digit_val_digit_char: "d < 10 \<Longrightarrow> digit_val (digit_char d) = d"
proof -
  assume "d < 10"
  then consider "d = 0" | "d = 1" | "d = 2" | "d = 3" | "d = 4"
    | "d = 5" | "d = 6" | "d = 7" | "d = 8" | "d = 9"
    by atomize_elim arith
  then show ?thesis
    by cases (simp_all add: digit_val_def digit_char_def)
qed

lemma parse_nat_snoc: "parse_nat (xs @ [c]) = 10 * parse_nat xs + digit_val c"
  by (simp add: parse_nat_def)

lemma parse_nat_str_nat: "parse_nat (str_nat n) = n"
proof (induction n rule: str_nat.induct)
  case (1 n)
  show ?case
  proof (cases "n < 10")
    case True
    then show ?thesis
      by (simp add: str_nat_small parse_nat_def digit_val_digit_char)
  next
    case False
    then have "parse_nat (str_nat (n div 10)) = n div 10" by (rule "1.IH")
    with False show ?thesis
      by (simp add: str_nat_big parse_nat_snoc digit_val_digit_char)
  qed
qed

lemma str_nat_nonempty: "str_nat n \<noteq> []"
  by (cases "n < 10") (simp_all add: str_nat_small str_nat_big)

lemma str_nat_hd: "hd (str_nat n) \<noteq> CHR ''-''"
proof
  assume h: "hd (str_nat n) = CHR ''-''"
  have "hd (str_nat n) \<in> set (str_nat n)" using str_nat_nonempty by (rule hd_in_set)
  with str_nat_chars [of n] have "hd (str_nat n) \<in> set ''0123456789''" by (rule subsetD)
  with h show False by simp
qed

lemma parse_int_str_int: "parse_int (str_int i) = i"
  by (simp add: parse_int_def str_int_def str_nat_nonempty str_nat_hd parse_nat_str_nat)

lemma last_offset_zero: "0 < limit \<Longrightarrow> max 0 (((0 - 1) div limit) * limit) = (0::int)"
proof -
  assume "0 < limit"
  then have "(- 1) div limit = - 1" by (simp add: div_eq_minus1)
  with \<open>0 < limit\<close> show ?thesis by simp
qed

lemma str_int_0: "str_int 0 = ''0''"
  by (simp add: str_int_def str_nat_small digit_char_def)

lemma str_int_20: "str_int 20 = ''20''"
  by (simp add: str_int_def str_nat_small str_nat_big digit_char_def)


subsection \<open>Dictionaries and the query string of a link\<close>

lemma join_cons: "join sep (x # xs) = x @ concat (map (\<lambda>s. sep @ s) xs)"
  by (induction xs arbitrary: x) simp_all

lemma dict_set_keeps: "(k, v) \<in> set d \<Longrightarrow> k \<noteq> k' \<Longrightarrow> (k, v) \<in> set (dict_set d k' v')"
  by (induction d) auto

lemma dict_set_in: "(k, v) \<in> set (dict_set d k v)"
  by (induction d) auto

lemma dict_update_keeps:
  "(k, v) \<in> set d \<Longrightarrow> k \<notin> fst ` set f \<Longrightarrow> (k, v) \<in> set (dict_update d f)"
proof (induction f arbitrary: d)
  case Nil
  then show ?case by simp
next
  case (Cons kv f)
  obtain k' v' where kv: "kv = (k', v')" by (cases kv)
  with Cons.prems have "k \<noteq> k'" and "k \<notin> fst ` set f" by auto
  with Cons.prems(1) Cons.IH [of "dict_set d k' v'"] kv show ?case
    by (simp add: dict_set_keeps)
qed

lemma dict_update_in:
  "distinct (map fst f) \<Longrightarrow> (k, v) \<in> set f \<Longrightarrow> (k, v) \<in> set (dict_update d f)"
proof (induction f arbitrary: d)
  case Nil
  then show ?case by simp
next
  case (Cons kv f)
  obtain k' v' where kv: "kv = (k', v')" by (cases kv)
  show ?case
  proof (cases "(k, v) = (k', v')")
    case True
    from Cons.prems(1) kv have "k' \<notin> fst ` set f" by simp
    with True dict_set_in [of k' v' d] have "(k, v) \<in> set (dict_update (dict_set d k' v') f)"
      by (simp add: dict_update_keeps)
    with kv show ?thesis by simp
  next
    case False
    with Cons.prems kv have "distinct (map fst f)" and "(k, v) \<in> set f" by auto
    then have "(k, v) \<in> set (dict_update (dict_set d k' v') f)" by (rule Cons.IH)
    with kv show ?thesis by simp
  qed
qed

lemma query_names_skip_limit:
  "query_names (''http://testserver/users'' @ ''?skip='' @ str_int a @ ''&limit='' @ str_int b)
     = [''skip'', ''limit'']"
proof -
  have "query_pairs (''http://testserver/users'' @ ''?skip='' @ str_int a @ ''&limit='' @ str_int b)
          = [(''skip'', str_int a), (''limit'', str_int b)]"
    by (rule query_pairs_skip_limit) (simp_all add: str_int_no_amp str_int_no_eq)
  then show ?thesis by (simp add: query_names_def)
qed

lemma other_links_href:
  assumes "generate_pagination_links request skip limit total_items filters = Inr lks"
    and "map_of lks k = Some l" and "k \<noteq> ''self''"
  shows "\<exists>n. href l = ''http://testserver/users'' @ ''?skip='' @ str_int n @ ''&limit='' @ str_int limit"
proof -
  let ?H = "\<lambda>n. ''http://testserver/users'' @ ''?skip='' @ str_int n @ ''&limit='' @ str_int limit"
  from assms have "href l = ?H 0 \<or> href l = ?H (max 0 (((total_items - 1) div limit) * limit))
      \<or> href l = ?H (skip + limit) \<or> href l = ?H (max 0 (skip - limit))"
    unfolding generate_pagination_links_def Let_def
    by (auto simp: str_int_0 split: if_splits)
  then show ?thesis by blast
qed

lemma other_links_names:
  assumes "generate_pagination_links request skip limit total_items filters = Inr lks"
    and "map_of lks k = Some l" and "k \<noteq> ''self''"
  shows "query_names (href l) = [''skip'', ''limit'']"
  using other_links_href [OF assms] query_names_skip_limit by auto

lemma other_links_same:
  assumes "generate_pagination_links request skip limit total_items filters = Inr lks"
    and "generate_pagination_links request skip limit total_items filters' = Inr lks'"
    and "k \<noteq> ''self''"
  shows "map_of lks k = map_of lks' k"
  using assms unfolding generate_pagination_links_def Let_def
  by (auto split: if_splits)

lemma first_last_present:
  assumes "generate_pagination_links request skip limit total_items filters = Inr lks"
  shows "has_link lks ''first'' \<and> has_link lks ''last''"
  using assms unfolding generate_pagination_links_def Let_def has_link_def
  by (auto split: if_splits)

lemma self_link_href:
  assumes "limit \<noteq> 0"
  shows "\<exists>lks. generate_pagination_links request skip limit total_items filters = Inr lks
     \<and> map_of lks ''self'' = Some \<lparr>rel = ''self'', href = ''http://testserver/users'' @ ''?'' @
        join ''&'' (map (\<lambda>(k, v). k @ ''='' @ py_str v)
          (case filters of None \<Rightarrow> [(''skip'', PyInt skip), (''limit'', PyInt limit)]
           | Some f \<Rightarrow> if f = [] then [(''skip'', PyInt skip), (''limit'', PyInt limit)]
                       else dict_update [(''skip'', PyInt skip), (''limit'', PyInt limit)] f))\<rparr>"
  using assms by (simp add: generate_pagination_links_def Let_def)


lemma join_skip_limit:
  "join ''&'' (map (\<lambda>(k, v). k @ ''='' @ py_str v) ((''skip'', a) # (''limit'', b) # rest))
     = ''skip='' @ py_str a @ ''&limit='' @ py_str b
       @ concat (map (\<lambda>(k, v). ''&'' @ k @ ''='' @ py_str v) rest)"
proof -
  have "concat (map (\<lambda>s. ''&'' @ s) (map (\<lambda>(k, v). k @ ''='' @ py_str v) rest))
          = concat (map (\<lambda>(k, v). ''&'' @ k @ ''='' @ py_str v) rest)"
    by (induction rest) auto
  then have "join ''&'' ((''limit='' @ py_str b) # map (\<lambda>(k, v). k @ ''='' @ py_str v) rest)
          = ''limit='' @ py_str b @ concat (map (\<lambda>(k, v). ''&'' @ k @ ''='' @ py_str v) rest)"
    by (simp only: join_cons append_assoc)
  then show ?thesis by simp
qed

lemma create_pagination_link_names:
  assumes "CHR ''?'' \<notin> set base_url"
    and "dict_get params ''skip'' = Inr (PyInt s)" and "dict_get params ''limit'' = Inr (PyInt l)"
  shows "\<exists>pl. create_pagination_link rel_name base_url params = Inr pl
    \<and> plink_rel pl = rel_name
    \<and> plink_href pl = base_url @ ''?skip='' @ str_int s @ ''&limit='' @ str_int l
    \<and> query_names (plink_href pl) = [''skip'', ''limit'']"
proof -
  have "query_pairs (base_url @ ''?skip='' @ str_int s @ ''&limit='' @ str_int l)
          = [(''skip'', str_int s), (''limit'', str_int l)]"
    using assms(1) by (rule query_pairs_skip_limit) (simp_all add: str_int_no_amp str_int_no_eq)
  then have "query_names (base_url @ ''?skip='' @ str_int s @ ''&limit='' @ str_int l) = [''skip'', ''limit'']"
    by (simp add: query_names_def)
  with assms(2,3) show ?thesis
    by (simp add: create_pagination_link_def)
qed


lemma dict_set_fresh: "k \<notin> fst ` set d \<Longrightarrow> dict_set d k v = d @ [(k, v)]"
  by (induction d) auto

lemma dict_update_fresh:
  "distinct (map fst f) \<Longrightarrow> fst ` set f \<inter> fst ` set d = {} \<Longrightarrow> dict_update d f = d @ f"
proof (induction f arbitrary: d)
  case Nil
  show ?case by simp
next
  case (Cons kv f)
  obtain k v where kv: "kv = (k, v)" by (cases kv)
  from Cons.prems kv have fresh: "k \<notin> fst ` set d" by auto
  from Cons.prems kv have "distinct (map fst f)"
    and "fst ` set f \<inter> fst ` set (d @ [(k, v)]) = {}" by auto
  then have "dict_update (d @ [(k, v)]) f = (d @ [(k, v)]) @ f" by (rule Cons.IH)
  with fresh kv show ?case by (simp add: dict_set_fresh)
qed

lemma dict_update_skip_limit_exact:
  assumes "distinct (map fst f)" and "fst ` set rest \<inter> fst ` set f = {}"
    and "''skip'' \<notin> fst ` set rest" and "''limit'' \<notin> fst ` set rest"
  shows "dict_update ((''skip'', a) # (''limit'', b) # rest) f
       = (''skip'', case map_of f ''skip'' of None \<Rightarrow> a | Some v \<Rightarrow> v)
         # (''limit'', case map_of f ''limit'' of None \<Rightarrow> b | Some v \<Rightarrow> v)
         # rest @ [kv \<leftarrow> f. fst kv \<noteq> ''skip'' \<and> fst kv \<noteq> ''limit'']"
  using assms
proof (induction f arbitrary: a b rest)
  case Nil
  show ?case by simp
next
  case (Cons kv f)
  obtain k v where kv: "kv = (k, v)" by (cases kv)
  from Cons.prems kv have df: "distinct (map fst f)" and kf: "k \<notin> fst ` set f"
    and rf: "fst ` set rest \<inter> fst ` set f = {}" and kr: "k \<notin> fst ` set rest"
    by auto
  from kf have nk: "map_of f k = None" by (simp add: map_of_eq_None_iff)
  consider (skip) "k = ''skip''" | (limit) "k = ''limit''"
    | (other) "k \<noteq> ''skip''" "k \<noteq> ''limit''" by blast
  then show ?case
  proof cases
    case skip
    have "dict_update ((''skip'', v) # (''limit'', b) # rest) f
       = (''skip'', case map_of f ''skip'' of None \<Rightarrow> v | Some v' \<Rightarrow> v')
         # (''limit'', case map_of f ''limit'' of None \<Rightarrow> b | Some v' \<Rightarrow> v')
         # rest @ [kv \<leftarrow> f. fst kv \<noteq> ''skip'' \<and> fst kv \<noteq> ''limit'']"
      using df rf Cons.prems(3,4) by (rule Cons.IH)
    with skip kv nk show ?thesis by simp
  next
    case limit
    have "dict_update ((''skip'', a) # (''limit'', v) # rest) f
       = (''skip'', case map_of f ''skip'' of None \<Rightarrow> a | Some v' \<Rightarrow> v')
         # (''limit'', case map_of f ''limit'' of None \<Rightarrow> v | Some v' \<Rightarrow> v')
         # rest @ [kv \<leftarrow> f. fst kv \<noteq> ''skip'' \<and> fst kv \<noteq> ''limit'']"
      using df rf Cons.prems(3,4) by (rule Cons.IH)
    with limit kv nk show ?thesis by simp
  next
    case other
    from kr have ds: "dict_set rest k v = rest @ [(k, v)]" by (rule dict_set_fresh)
    have "fst ` set (rest @ [(k, v)]) \<inter> fst ` set f = {}" using rf kf by auto
    moreover have "''skip'' \<notin> fst ` set (rest @ [(k, v)])" using Cons.prems(3) other by auto
    moreover have "''limit'' \<notin> fst ` set (rest @ [(k, v)])" using Cons.prems(4) other by auto
    ultimately have "dict_update ((''skip'', a) # (''limit'', b) # (rest @ [(k, v)])) f
       = (''skip'', case map_of f ''skip'' of None \<Rightarrow> a | Some v' \<Rightarrow> v')
         # (''limit'', case map_of f ''limit'' of None \<Rightarrow> b | Some v' \<Rightarrow> v')
         # (rest @ [(k, v)]) @ [kv \<leftarrow> f. fst kv \<noteq> ''skip'' \<and> fst kv \<noteq> ''limit'']"
      using df by (intro Cons.IH)
    with other kv ds show ?thesis by simp
  qed
qed

lemma self_link_filtered:
  assumes "limit \<noteq> 0" and "f \<noteq> []" and "distinct (map fst f)"
  shows "\<exists>lks s. generate_pagination_links request skip limit total_items (Some f) = Inr lks
    \<and> map_of lks ''self'' = Some s
    \<and> href s = ''http://testserver/users?skip=''
         @ py_str (case map_of f ''skip'' of None \<Rightarrow> PyInt skip | Some v \<Rightarrow> v)
         @ ''&limit=''
         @ py_str (case map_of f ''limit'' of None \<Rightarrow> PyInt limit | Some v \<Rightarrow> v)
         @ concat (map (\<lambda>(k, v). ''&'' @ k @ ''='' @ py_str v)
                     [kv \<leftarrow> f. fst kv \<noteq> ''skip'' \<and> fst kv \<noteq> ''limit''])"
proof -
  let ?vs = "case map_of f ''skip'' of None \<Rightarrow> PyInt skip | Some v \<Rightarrow> v"
  let ?vl = "case map_of f ''limit'' of None \<Rightarrow> PyInt limit | Some v \<Rightarrow> v"
  let ?rest = "[kv \<leftarrow> f. fst kv \<noteq> ''skip'' \<and> fst kv \<noteq> ''limit'']"
  have u: "dict_update [(''skip'', PyInt skip), (''limit'', PyInt limit)] f
         = (''skip'', ?vs) # (''limit'', ?vl) # ?rest"
    using dict_update_skip_limit_exact [OF assms(3), of "[]" "PyInt skip" "PyInt limit"] by simp
  from self_link_href [OF assms(1), of request skip total_items "Some f"] assms(2)
  obtain lks where g: "generate_pagination_links request skip limit total_items (Some f) = Inr lks"
    and m: "map_of lks ''self'' = Some \<lparr>rel = ''self'', href = ''http://testserver/users'' @ ''?'' @
        join ''&'' (map (\<lambda>(k, v). k @ ''='' @ py_str v) ((''skip'', ?vs) # (''limit'', ?vl) # ?rest))\<rparr>"
    unfolding u [symmetric] by auto
  have "href \<lparr>rel = ''self'', href = ''http://testserver/users'' @ ''?'' @
        join ''&'' (map (\<lambda>(k, v). k @ ''='' @ py_str v) ((''skip'', ?vs) # (''limit'', ?vl) # ?rest))\<rparr>
      = ''http://testserver/users?skip='' @ py_str ?vs @ ''&limit='' @ py_str ?vl
               @ concat (map (\<lambda>(k, v). ''&'' @ k @ ''='' @ py_str v) ?rest)"
    unfolding join_skip_limit by simp
  with g m show ?thesis by blast
qed

lemma self_link_plain:
  assumes "limit \<noteq> 0" and "filters = None \<or> filters = Some []"
  shows "\<exists>lks s. generate_pagination_links request skip limit total_items filters = Inr lks
    \<and> map_of lks ''self'' = Some s
    \<and> href s = ''http://testserver/users?skip='' @ str_int skip @ ''&limit='' @ str_int limit
    \<and> query_names (href s) = [''skip'', ''limit'']"
proof -
  have q: "(case filters of None \<Rightarrow> [(''skip'', PyInt skip), (''limit'', PyInt limit)]
      | Some f \<Rightarrow> if f = [] then [(''skip'', PyInt skip), (''limit'', PyInt limit)]
                  else dict_update [(''skip'', PyInt skip), (''limit'', PyInt limit)] f)
     = [(''skip'', PyInt skip), (''limit'', PyInt limit)]"
    using assms(2) by auto
  from self_link_href [OF assms(1), of request skip total_items filters]
  obtain lks where g: "generate_pagination_links request skip limit total_items filters = Inr lks"
    and m: "map_of lks ''self'' = Some \<lparr>rel = ''self'', href = ''http://testserver/users'' @ ''?'' @
        join ''&'' (map (\<lambda>(k, v). k @ ''='' @ py_str v) [(''skip'', PyInt skip), (''limit'', PyInt limit)])\<rparr>"
    unfolding q by blast
  let ?s = "\<lparr>rel = ''self'', href = ''http://testserver/users'' @ ''?'' @
        join ''&'' (map (\<lambda>(k, v). k @ ''='' @ py_str v) [(''skip'', PyInt skip), (''limit'', PyInt limit)])\<rparr>"
  have h: "href ?s = ''http://testserver/users?skip='' @ str_int skip @ ''&limit='' @ str_int limit"
    by simp
  have "href ?s = ''http://testserver/users'' @ ''?skip='' @ str_int skip @ ''&limit='' @ str_int limit"
    by simp
  then have n: "query_names (href ?s) = [''skip'', ''limit'']"
    using query_names_skip_limit [of skip limit] by simp
  from g m h n show ?thesis by blast
qed

lemma create_pagination_link_href:
  assumes "create_pagination_link rel_name base_url params = Inr pl"
  shows "\<exists>s l. dict_get params ''skip'' = Inr s \<and> dict_get params ''limit'' = Inr l
     \<and> plink_rel pl = rel_name
     \<and> plink_href pl = base_url @ ''?skip='' @ py_str s @ ''&limit='' @ py_str l"
  using assms by (auto simp: create_pagination_link_def split: sum.splits)

lemma length_hex_fixed: "length (hex_fixed w n) = w"
  by (induction w arbitrary: n) simp_all

lemma length_str_uuid: "length (str_uuid u) = 36"
  by (simp add: str_uuid_def Let_def length_hex_fixed)

subsection \<open>The first page of 25 items, ten to a page\<close>

lemma str_int_10: "str_int 10 = ''10''"
  by (simp add: str_int_def str_nat_small str_nat_big digit_char_def)

lemma gpl_first_page:
  "generate_pagination_links () 0 10 25 None =
     Inr [(''self'', \<lparr>rel = ''self'', href = ''http://testserver/users?skip=0&limit=10''\<rparr>),
          (''first'', \<lparr>rel = ''first'', href = ''http://testserver/users?skip=0&limit=10''\<rparr>),
          (''last'', \<lparr>rel = ''last'', href = ''http://testserver/users?skip=20&limit=10''\<rparr>),
          (''next'', \<lparr>rel = ''next'', href = ''http://testserver/users?skip=10&limit=10''\<rparr>)]"
  by (simp add: generate_pagination_links_def str_int_0 str_int_10 str_int_20)

lemma gpl_first_page_filtered:
  "generate_pagination_links () 0 10 25 (Some [(''role'', PyStr ''ADMIN'')]) =
     Inr [(''self'', \<lparr>rel = ''self'', href = ''http://testserver/users?skip=0&limit=10&role=ADMIN''\<rparr>),
          (''first'', \<lparr>rel = ''first'', href = ''http://testserver/users?skip=0&limit=10''\<rparr>),
          (''last'', \<lparr>rel = ''last'', href = ''http://testserver/users?skip=20&limit=10''\<rparr>),
          (''next'', \<lparr>rel = ''next'', href = ''http://testserver/users?skip=10&limit=10''\<rparr>)]"
  by (simp add: generate_pagination_links_def str_int_0 str_int_10 str_int_20)

lemma query_names_filtered:
  "query_names ''http://testserver/users?skip=0&limit=10&role=ADMIN'' = [''skip'', ''limit'', ''role'']"
  by (simp add: query_names_def query_pairs_def query_of_def)

lemma str_int_5: "str_int 5 = ''5''"
  by (simp add: str_int_def str_nat_small digit_char_def)

lemma cpl_injected_run:
  "create_pagination_link ''next'' ''http://testserver/users''
      [(''skip'', PyStr ''0&page=2''), (''limit'', PyInt 10)]
    = Inr \<lparr>plink_rel = ''next'',
           plink_href = ''http://testserver/users?skip=0&page=2&limit=10''\<rparr>"
  by (simp add: create_pagination_link_def str_int_10)

lemma cpl_query_base_run:
  "create_pagination_link ''next'' ''http://testserver/users?sort=name''
      [(''skip'', PyInt 0), (''limit'', PyInt 10)]
    = Inr \<lparr>plink_rel = ''next'',
           plink_href = ''http://testserver/users?sort=name?skip=0&limit=10''\<rparr>"
  by (simp add: create_pagination_link_def str_int_0 str_int_10)

lemma cpl_plain_run:
  "create_pagination_link ''next'' ''http://testserver/users''
      [(''skip'', PyInt 10), (''limit'', PyInt 5)]
    = Inr \<lparr>plink_rel = ''next'', plink_href = ''http://testserver/users?skip=10&limit=5''\<rparr>"
  by (simp add: create_pagination_link_def str_int_5 str_int_10)

lemma query_names_injected:
  "query_names ''http://testserver/users?skip=0&page=2&limit=10'' = [''skip'', ''page'', ''limit'']"
  by (simp add: query_names_def query_pairs_def query_of_def)

lemma query_names_query_base:
  "query_names ''http://testserver/users?sort=name?skip=0&limit=10'' = [''sort'', ''limit'']"
  by (simp add: query_names_def query_pairs_def query_of_def)

section \<open>Properties of the link builder\<close>

text \<open>
  C1. For every call to \<open>generate_pagination_links\<close> with \<open>limit > 0\<close>, the returned
  link set contains a \<open>next\<close> link if and only if \<open>skip + limit < total_items\<close>, and
  contains a \<open>prev\<close> link if and only if \<open>skip > 0\<close>.
\<close>

theorem pagination_next_prev_iff:
  assumes "0 < limit"
  shows "\<exists>lks. generate_pagination_links request skip limit total_items filters = Inr lks
           \<and> (has_link lks ''next'' \<longleftrightarrow> skip + limit < total_items)
           \<and> (has_link lks ''prev'' \<longleftrightarrow> 0 < skip)"
  using assms by (simp add: generate_pagination_links_def has_link_def Let_def)

theorem pagination_next_prev_iff_witness:
  "(0::int) < 10 \<and> (\<exists>lks. generate_pagination_links () 0 10 25 None = Inr lks
           \<and> (has_link lks ''next'' \<longleftrightarrow> (0::int) + 10 < 25)
           \<and> (has_link lks ''prev'' \<longleftrightarrow> (0::int) < 0))"
  using pagination_next_prev_iff [of 10 "()" 0 25 None] by simp

text \<open>
  C2. For every call to \<open>generate_pagination_links\<close> with \<open>limit > 0\<close>, the \<open>skip\<close>
  query parameter of the \<open>last\<close> link is the decimal text of
  \<open>max(0, ((total_items - 1) // limit) * limit)\<close> under floor division, reads back as that
  number, and is \<open>0\<close> when \<open>total_items = 0\<close>.
\<close>

theorem pagination_last_offset:
  assumes "0 < limit"
  shows "\<exists>lks l v. generate_pagination_links request skip limit total_items filters = Inr lks
           \<and> map_of lks ''last'' = Some l
           \<and> map_of (query_pairs (href l)) ''skip'' = Some v
           \<and> v = str_int (max 0 (((total_items - 1) div limit) * limit))
           \<and> parse_int v = max 0 (((total_items - 1) div limit) * limit)
           \<and> (total_items = 0 \<longrightarrow> v = ''0'')"
proof -
  let ?off = "max 0 (((total_items - 1) div limit) * limit)"
  let ?l = "\<lparr>rel = ''last'', href = ''http://testserver/users'' @ ''?skip='' @ str_int ?off
                 @ ''&limit='' @ str_int limit\<rparr>"
  obtain lks where g: "generate_pagination_links request skip limit total_items filters = Inr lks"
    and m: "map_of lks ''last'' = Some ?l"
    using assms by (simp add: generate_pagination_links_def Let_def)
  have "query_pairs (''http://testserver/users'' @ ''?skip='' @ str_int ?off @ ''&limit='' @ str_int limit)
          = [(''skip'', str_int ?off), (''limit'', str_int limit)]"
    by (rule query_pairs_skip_limit) (simp_all add: str_int_no_amp str_int_no_eq)
  then have p: "map_of (query_pairs (href ?l)) ''skip'' = Some (str_int ?off)"
    by simp
  have z: "total_items = 0 \<longrightarrow> str_int ?off = ''0''"
    using last_offset_zero [OF assms] str_int_0 by auto
  from g m p z parse_int_str_int [of ?off] show ?thesis by blast
qed

theorem pagination_last_offset_witness:
  "(0::int) < 10
   \<and> (\<exists>lks l. generate_pagination_links () 0 10 0 None = Inr lks
          \<and> map_of lks ''last'' = Some l
          \<and> map_of (query_pairs (href l)) ''skip'' = Some ''0'')
   \<and> (\<exists>lks l. generate_pagination_links () 0 10 25 None = Inr lks
          \<and> map_of lks ''last'' = Some l
          \<and> map_of (query_pairs (href l)) ''skip'' = Some ''20'')"
proof -
  have h: "(0::int) < 10" by simp
  have a: "\<exists>lks l. generate_pagination_links () 0 10 0 None = Inr lks
          \<and> map_of lks ''last'' = Some l
          \<and> map_of (query_pairs (href l)) ''skip'' = Some ''0''"
    using pagination_last_offset [OF h, of "()" 0 0 None] by auto
  have "max 0 ((((25::int) - 1) div 10) * 10) = 20" by simp
  then have b: "\<exists>lks l. generate_pagination_links () 0 10 25 None = Inr lks
          \<and> map_of lks ''last'' = Some l
          \<and> map_of (query_pairs (href l)) ''skip'' = Some ''20''"
    using pagination_last_offset [OF h, of "()" 0 25 None] str_int_20 by auto
  from h a b show ?thesis by blast
qed

text \<open>
  C4. For every \<open>skip\<close>, \<open>total_items\<close> and every \<open>limit > 0\<close>,
  \<open>generate_pagination_links\<close> raises no error (the division by \<open>limit\<close> is safe) and
  its result contains the \<open>self\<close>, \<open>first\<close> and \<open>last\<close> links: under each of the three
  keys, the link with that relation name and with the address the code builds for it.
\<close>

theorem pagination_total:
  assumes "0 < limit"
  shows "\<exists>lks. generate_pagination_links request skip limit total_items filters = Inr lks
     \<and> map_of lks ''self'' = Some \<lparr>rel = ''self'',
          href = ''http://testserver/users?''
            @ join ''&'' (map (\<lambda>(k, v). k @ ''='' @ py_str v)
                (case filters of
                   None \<Rightarrow> [(''skip'', PyInt skip), (''limit'', PyInt limit)]
                 | Some f \<Rightarrow> if f = [] then [(''skip'', PyInt skip), (''limit'', PyInt limit)]
                             else dict_update [(''skip'', PyInt skip), (''limit'', PyInt limit)] f))\<rparr>
     \<and> map_of lks ''first'' = Some \<lparr>rel = ''first'',
          href = ''http://testserver/users?skip=0&limit='' @ str_int limit\<rparr>
     \<and> map_of lks ''last'' = Some \<lparr>rel = ''last'',
          href = ''http://testserver/users?skip=''
            @ str_int (max 0 (((total_items - 1) div limit) * limit))
            @ ''&limit='' @ str_int limit\<rparr>
     \<and> has_link lks ''self'' \<and> has_link lks ''first'' \<and> has_link lks ''last''"
  using assms by (simp add: generate_pagination_links_def has_link_def Let_def)

theorem pagination_total_witness:
  "(0::int) < 10
   \<and> (\<exists>lks. generate_pagination_links () 0 10 25 None = Inr lks
         \<and> map_of lks ''self''
             = Some \<lparr>rel = ''self'', href = ''http://testserver/users?skip=0&limit=10''\<rparr>
         \<and> map_of lks ''first''
             = Some \<lparr>rel = ''first'', href = ''http://testserver/users?skip=0&limit=10''\<rparr>
         \<and> map_of lks ''last''
             = Some \<lparr>rel = ''last'', href = ''http://testserver/users?skip=20&limit=10''\<rparr>)"
proof -
  have h: "(0::int) < 10" by simp
  from pagination_total [OF h, of "()" 0 25 None]
  obtain lks where g: "generate_pagination_links () 0 10 25 None = Inr lks"
    and s: "map_of lks ''self'' = Some \<lparr>rel = ''self'',
          href = ''http://testserver/users?''
            @ join ''&'' (map (\<lambda>(k, v). k @ ''='' @ py_str v)
                (case (None :: pyval pydict option) of
                   None \<Rightarrow> [(''skip'', PyInt 0), (''limit'', PyInt 10)]
                 | Some f \<Rightarrow> if f = [] then [(''skip'', PyInt 0), (''limit'', PyInt 10)]
                             else dict_update [(''skip'', PyInt 0), (''limit'', PyInt 10)] f))\<rparr>"
    and f: "map_of lks ''first'' = Some \<lparr>rel = ''first'',
          href = ''http://testserver/users?skip=0&limit='' @ str_int 10\<rparr>"
    and l: "map_of lks ''last'' = Some \<lparr>rel = ''last'',
          href = ''http://testserver/users?skip=''
            @ str_int (max 0 (((25 - 1) div 10) * 10))
            @ ''&limit='' @ str_int 10\<rparr>"
    by (elim exE conjE) (rule that)
  from s have s': "map_of lks ''self''
             = Some \<lparr>rel = ''self'', href = ''http://testserver/users?skip=0&limit=10''\<rparr>"
    by (simp add: str_int_0 str_int_10)
  from f have f': "map_of lks ''first''
             = Some \<lparr>rel = ''first'', href = ''http://testserver/users?skip=0&limit=10''\<rparr>"
    by (simp add: str_int_10)
  have "max (0::int) (((25 - 1) div 10) * 10) = 20" by simp
  with l have l': "map_of lks ''last''
             = Some \<lparr>rel = ''last'', href = ''http://testserver/users?skip=20&limit=10''\<rparr>"
    by (simp add: str_int_10 str_int_20)
  from g s' f' l' have "\<exists>lks. generate_pagination_links () 0 10 25 None = Inr lks
         \<and> map_of lks ''self''
             = Some \<lparr>rel = ''self'', href = ''http://testserver/users?skip=0&limit=10''\<rparr>
         \<and> map_of lks ''first''
             = Some \<lparr>rel = ''first'', href = ''http://testserver/users?skip=0&limit=10''\<rparr>
         \<and> map_of lks ''last''
             = Some \<lparr>rel = ''last'', href = ''http://testserver/users?skip=20&limit=10''\<rparr>"
    by (intro exI conjI)
  with h show ?thesis by (intro conjI)
qed

text \<open>
  C5, as amended. In every \<open>first\<close>, \<open>last\<close>, \<open>next\<close> and \<open>prev\<close> link of
  \<open>generate_pagination_links\<close>, and in its \<open>self\<close> link when no filters (or empty ones) are
  passed, the query string has exactly the parameter names \<open>skip\<close> and \<open>limit\<close>, in this
  order. With non-empty filters (a dictionary, so with distinct keys) the \<open>self\<close> link is
  \<open>http://testserver/users?skip=s&limit=l\<close> followed by \<open>&name=value\<close> for each filter
  not named \<open>skip\<close> or \<open>limit\<close>, in the order of the filters, where \<open>s\<close> and \<open>l\<close> are
  \<open>skip\<close> and \<open>limit\<close> unless the filters hold an entry of that name, whose value then
  stands there. Every link \<open>create_pagination_link\<close> returns is the base address followed
  by \<open>?skip=\<close>, the text of \<open>params['skip']\<close>, \<open>&limit=\<close> and the text of
  \<open>params['limit']\<close>; when the two values are integers and the base address has no \<open>?\<close>,
  its query string has exactly the parameter names \<open>skip\<close> and \<open>limit\<close>, in this order.
\<close>

theorem pagination_query_names:
  "(limit \<noteq> 0 \<longrightarrow>
      (\<exists>lks s.
          generate_pagination_links request skip limit total_items filters = Inr lks
        \<and> has_link lks ''first'' \<and> has_link lks ''last''
        \<and> (\<forall>k l. map_of lks k = Some l \<longrightarrow> k \<noteq> ''self''
               \<longrightarrow> query_names (href l) = [''skip'', ''limit''])
        \<and> map_of lks ''self'' = Some s
        \<and> (filters = None \<or> filters = Some [] \<longrightarrow>
              href s = ''http://testserver/users?skip='' @ str_int skip
                       @ ''&limit='' @ str_int limit
              \<and> query_names (href s) = [''skip'', ''limit''])
        \<and> (\<forall>f. filters = Some f \<longrightarrow> f \<noteq> [] \<longrightarrow> distinct (map fst f) \<longrightarrow>
              href s = ''http://testserver/users?skip=''
                 @ py_str (case map_of f ''skip'' of None \<Rightarrow> PyInt skip | Some v \<Rightarrow> v)
                 @ ''&limit=''
                 @ py_str (case map_of f ''limit'' of None \<Rightarrow> PyInt limit | Some v \<Rightarrow> v)
                 @ concat (map (\<lambda>(k, v). ''&'' @ k @ ''='' @ py_str v)
                             [kv \<leftarrow> f. fst kv \<noteq> ''skip'' \<and> fst kv \<noteq> ''limit'']))))
   \<and> (\<forall>pl. create_pagination_link rel_name base_url params = Inr pl \<longrightarrow>
         (\<exists>s l. dict_get params ''skip'' = Inr s \<and> dict_get params ''limit'' = Inr l
            \<and> plink_href pl = base_url @ ''?skip='' @ py_str s @ ''&limit='' @ py_str l))
   \<and> (CHR ''?'' \<notin> set base_url \<longrightarrow> dict_get params ''skip'' = Inr (PyInt a)
        \<longrightarrow> dict_get params ''limit'' = Inr (PyInt b)
        \<longrightarrow> (\<exists>pl. create_pagination_link rel_name base_url params = Inr pl
               \<and> plink_href pl = base_url @ ''?skip='' @ str_int a @ ''&limit='' @ str_int b
               \<and> query_names (plink_href pl) = [''skip'', ''limit'']))"
proof (intro conjI impI allI)
  assume nz: "limit \<noteq> 0"
  from self_link_href [OF nz, of request skip total_items filters]
  obtain lks s where
    g: "generate_pagination_links request skip limit total_items filters = Inr lks"
    and m: "map_of lks ''self'' = Some s"
    by blast
  have o: "\<forall>k l. map_of lks k = Some l \<longrightarrow> k \<noteq> ''self''
               \<longrightarrow> query_names (href l) = [''skip'', ''limit'']"
    using other_links_names [OF g] by blast
  note fl = first_last_present [OF g]
  have n: "filters = None \<or> filters = Some [] \<longrightarrow>
              href s = ''http://testserver/users?skip='' @ str_int skip
                       @ ''&limit='' @ str_int limit
              \<and> query_names (href s) = [''skip'', ''limit'']"
  proof
    assume "filters = None \<or> filters = Some []"
    from self_link_plain [OF nz this, of request skip total_items] g m
    show "href s = ''http://testserver/users?skip='' @ str_int skip
                       @ ''&limit='' @ str_int limit
              \<and> query_names (href s) = [''skip'', ''limit'']" by auto
  qed
  have w: "\<forall>f. filters = Some f \<longrightarrow> f \<noteq> [] \<longrightarrow> distinct (map fst f) \<longrightarrow>
              href s = ''http://testserver/users?skip=''
                 @ py_str (case map_of f ''skip'' of None \<Rightarrow> PyInt skip | Some v \<Rightarrow> v)
                 @ ''&limit=''
                 @ py_str (case map_of f ''limit'' of None \<Rightarrow> PyInt limit | Some v \<Rightarrow> v)
                 @ concat (map (\<lambda>(k, v). ''&'' @ k @ ''='' @ py_str v)
                             [kv \<leftarrow> f. fst kv \<noteq> ''skip'' \<and> fst kv \<noteq> ''limit''])"
  proof (intro allI impI)
    fix f
    assume "filters = Some f" and "f \<noteq> []" and "distinct (map fst f)"
    from self_link_filtered [OF nz this(2,3), of request skip total_items] g m
      \<open>filters = Some f\<close>
    show "href s = ''http://testserver/users?skip=''
                 @ py_str (case map_of f ''skip'' of None \<Rightarrow> PyInt skip | Some v \<Rightarrow> v)
                 @ ''&limit=''
                 @ py_str (case map_of f ''limit'' of None \<Rightarrow> PyInt limit | Some v \<Rightarrow> v)
                 @ concat (map (\<lambda>(k, v). ''&'' @ k @ ''='' @ py_str v)
                             [kv \<leftarrow> f. fst kv \<noteq> ''skip'' \<and> fst kv \<noteq> ''limit''])"
      by auto
  qed
  from g fl [THEN conjunct1] fl [THEN conjunct2] o m n w
  show "\<exists>lks s.
          generate_pagination_links request skip limit total_items filters = Inr lks
        \<and> has_link lks ''first'' \<and> has_link lks ''last''
        \<and> (\<forall>k l. map_of lks k = Some l \<longrightarrow> k \<noteq> ''self''
               \<longrightarrow> query_names (href l) = [''skip'', ''limit''])
        \<and> map_of lks ''self'' = Some s
        \<and> (filters = None \<or> filters = Some [] \<longrightarrow>
              href s = ''http://testserver/users?skip='' @ str_int skip
                       @ ''&limit='' @ str_int limit
              \<and> query_names (href s) = [''skip'', ''limit''])
        \<and> (\<forall>f. filters = Some f \<longrightarrow> f \<noteq> [] \<longrightarrow> distinct (map fst f) \<longrightarrow>
              href s = ''http://testserver/users?skip=''
                 @ py_str (case map_of f ''skip'' of None \<Rightarrow> PyInt skip | Some v \<Rightarrow> v)
                 @ ''&limit=''
                 @ py_str (case map_of f ''limit'' of None \<Rightarrow> PyInt limit | Some v \<Rightarrow> v)
                 @ concat (map (\<lambda>(k, v). ''&'' @ k @ ''='' @ py_str v)
                             [kv \<leftarrow> f. fst kv \<noteq> ''skip'' \<and> fst kv \<noteq> ''limit'']))"
    by (intro exI conjI)
next
  fix pl
  assume "create_pagination_link rel_name base_url params = Inr pl"
  from create_pagination_link_href [OF this]
  show "\<exists>s l. dict_get params ''skip'' = Inr s \<and> dict_get params ''limit'' = Inr l
            \<and> plink_href pl = base_url @ ''?skip='' @ py_str s @ ''&limit='' @ py_str l"
    by blast
next
  assume "CHR ''?'' \<notin> set base_url" and "dict_get params ''skip'' = Inr (PyInt a)"
    and "dict_get params ''limit'' = Inr (PyInt b)"
  from create_pagination_link_names [OF this, of rel_name]
  show "\<exists>pl. create_pagination_link rel_name base_url params = Inr pl
               \<and> plink_href pl = base_url @ ''?skip='' @ str_int a @ ''&limit='' @ str_int b
               \<and> query_names (plink_href pl) = [''skip'', ''limit'']"
    by blast
qed

text \<open>
  As stated, C5 fails in three places: with the filter \<open>role=ADMIN\<close> the \<open>self\<close> link has
  a third parameter; \<open>create_pagination_link\<close> with the text \<open>0&page=2\<close> as \<open>skip\<close> gives a
  query string with the names \<open>skip\<close>, \<open>page\<close>, \<open>limit\<close>; and on a base address that
  already has a query string the names read back are not \<open>skip\<close>, \<open>limit\<close>.
\<close>

theorem pagination_query_names_counterexample:
  "generate_pagination_links () 0 10 25 (Some [(''role'', PyStr ''ADMIN'')]) =
     Inr [(''self'', \<lparr>rel = ''self'', href = ''http://testserver/users?skip=0&limit=10&role=ADMIN''\<rparr>),
          (''first'', \<lparr>rel = ''first'', href = ''http://testserver/users?skip=0&limit=10''\<rparr>),
          (''last'', \<lparr>rel = ''last'', href = ''http://testserver/users?skip=20&limit=10''\<rparr>),
          (''next'', \<lparr>rel = ''next'', href = ''http://testserver/users?skip=10&limit=10''\<rparr>)]
   \<and> query_names ''http://testserver/users?skip=0&limit=10&role=ADMIN'' = [''skip'', ''limit'', ''role'']
   \<and> query_names ''http://testserver/users?skip=0&limit=10&role=ADMIN'' \<noteq> [''skip'', ''limit'']
   \<and> create_pagination_link ''next'' ''http://testserver/users''
        [(''skip'', PyStr ''0&page=2''), (''limit'', PyInt 10)]
      = Inr \<lparr>plink_rel = ''next'',
             plink_href = ''http://testserver/users?skip=0&page=2&limit=10''\<rparr>
   \<and> query_names ''http://testserver/users?skip=0&page=2&limit=10''
      = [''skip'', ''page'', ''limit'']
   \<and> query_names ''http://testserver/users?skip=0&page=2&limit=10'' \<noteq> [''skip'', ''limit'']
   \<and> create_pagination_link ''next'' ''http://testserver/users?sort=name''
        [(''skip'', PyInt 0), (''limit'', PyInt 10)]
      = Inr \<lparr>plink_rel = ''next'',
             plink_href = ''http://testserver/users?sort=name?skip=0&limit=10''\<rparr>
   \<and> query_names ''http://testserver/users?sort=name?skip=0&limit=10'' = [''sort'', ''limit'']
   \<and> query_names ''http://testserver/users?sort=name?skip=0&limit=10'' \<noteq> [''skip'', ''limit'']"
  by (simp add: gpl_first_page_filtered query_names_filtered cpl_injected_run
        cpl_query_base_run query_names_injected query_names_query_base)

theorem pagination_query_names_witness:
  "(10::int) \<noteq> 0
   \<and> (\<exists>lks s n. generate_pagination_links () 0 10 25 None = Inr lks
         \<and> map_of lks ''self'' = Some s
         \<and> href s = ''http://testserver/users?skip=0&limit=10''
         \<and> query_names (href s) = [''skip'', ''limit'']
         \<and> map_of lks ''next'' = Some n \<and> query_names (href n) = [''skip'', ''limit''])
   \<and> [(''role'', PyStr ''ADMIN'')] \<noteq> [] \<and> distinct (map fst [(''role'', PyStr ''ADMIN'')])
   \<and> (\<exists>lks s. generate_pagination_links () 0 10 25 (Some [(''role'', PyStr ''ADMIN'')]) = Inr lks
         \<and> map_of lks ''self'' = Some s
         \<and> href s = ''http://testserver/users?skip=0&limit=10&role=ADMIN'')
   \<and> create_pagination_link ''next'' ''http://testserver/users''
        [(''skip'', PyInt 10), (''limit'', PyInt 5)]
      = Inr \<lparr>plink_rel = ''next'', plink_href = ''http://testserver/users?skip=10&limit=5''\<rparr>
   \<and> (\<exists>s l. dict_get [(''skip'', PyInt 10), (''limit'', PyInt 5)] ''skip'' = Inr s
         \<and> dict_get [(''skip'', PyInt 10), (''limit'', PyInt 5)] ''limit'' = Inr l
         \<and> plink_href \<lparr>plink_rel = ''next'',
                         plink_href = ''http://testserver/users?skip=10&limit=5''\<rparr>
             = ''http://testserver/users'' @ ''?skip='' @ py_str s @ ''&limit='' @ py_str l)
   \<and> CHR ''?'' \<notin> set ''http://testserver/users''
   \<and> dict_get [(''skip'', PyInt 10), (''limit'', PyInt 5)] ''skip'' = Inr (PyInt 10)
   \<and> dict_get [(''skip'', PyInt 10), (''limit'', PyInt 5)] ''limit'' = Inr (PyInt 5)
   \<and> (\<exists>pl. create_pagination_link ''next'' ''http://testserver/users''
                 [(''skip'', PyInt 10), (''limit'', PyInt 5)] = Inr pl
         \<and> query_names (plink_href pl) = [''skip'', ''limit''])"
proof -
  have h1: "(10::int) \<noteq> 0" by simp
  have h2: "CHR ''?'' \<notin> set ''http://testserver/users''" by simp
  have h3: "dict_get [(''skip'', PyInt 10), (''limit'', PyInt 5)] ''skip'' = Inr (PyInt 10)" by simp
  have h4: "dict_get [(''skip'', PyInt 10), (''limit'', PyInt 5)] ''limit'' = Inr (PyInt 5)" by simp
  have h5: "[(''role'', PyStr ''ADMIN'')] \<noteq> []" by simp
  have h6: "distinct (map fst [(''role'', PyStr ''ADMIN'')])" by simp
  note t = pagination_query_names [where limit = 10 and request = "()" and skip = 0
      and total_items = 25
      and filters = None and base_url = "''http://testserver/users''"
      and params = "[(''skip'', PyInt 10), (''limit'', PyInt 5)]" and a = 10 and b = 5
      and rel_name = "''next''"]
  from t [THEN conjunct1, THEN mp, OF h1]
  obtain lks s where
    g: "generate_pagination_links () 0 10 25 None = Inr lks"
    and o: "\<forall>k l. map_of lks k = Some l \<longrightarrow> k \<noteq> ''self''
               \<longrightarrow> query_names (href l) = [''skip'', ''limit'']"
    and m: "map_of lks ''self'' = Some s"
    and n: "(None :: pyval pydict option) = None \<or> (None :: pyval pydict option) = Some []
               \<longrightarrow> href s = ''http://testserver/users?skip='' @ str_int 0
                       @ ''&limit='' @ str_int 10
              \<and> query_names (href s) = [''skip'', ''limit'']"
    by (elim exE conjE) (rule that)
  note n' = n [THEN mp, OF disjI1, OF refl]
  from n' [THEN conjunct1] have n1: "href s = ''http://testserver/users?skip=0&limit=10''"
    by (simp add: str_int_0 str_int_10)
  from n' [THEN conjunct2] have n2: "query_names (href s) = [''skip'', ''limit'']" .
  let ?N = "\<lparr>rel = ''next'', href = ''http://testserver/users?skip=10&limit=10''\<rparr>"
  from g [unfolded gpl_first_page]
  have L: "[(''self'', \<lparr>rel = ''self'', href = ''http://testserver/users?skip=0&limit=10''\<rparr>),
          (''first'', \<lparr>rel = ''first'', href = ''http://testserver/users?skip=0&limit=10''\<rparr>),
          (''last'', \<lparr>rel = ''last'', href = ''http://testserver/users?skip=20&limit=10''\<rparr>),
          (''next'', ?N)] = lks"
    by (simp only: sum.inject)
  have nx: "map_of lks ''next'' = Some ?N"
    unfolding L [symmetric] by simp
  have ne: "''next'' \<noteq> ''self''" by simp
  from o [THEN spec, THEN spec, THEN mp, THEN mp, OF nx ne]
  have nn: "query_names (href ?N) = [''skip'', ''limit'']" .
  from g m n1 n2 nx nn
  have a: "\<exists>lks s n. generate_pagination_links () 0 10 25 None = Inr lks
         \<and> map_of lks ''self'' = Some s
         \<and> href s = ''http://testserver/users?skip=0&limit=10''
         \<and> query_names (href s) = [''skip'', ''limit'']
         \<and> map_of lks ''next'' = Some n \<and> query_names (href n) = [''skip'', ''limit'']"
    by (intro exI conjI)
  from pagination_query_names [where limit = 10 and request = "()" and skip = 0
      and total_items = 25 and filters = "Some [(''role'', PyStr ''ADMIN'')]",
      THEN conjunct1, THEN mp, OF h1]
  obtain lks' s' where
    g': "generate_pagination_links () 0 10 25 (Some [(''role'', PyStr ''ADMIN'')]) = Inr lks'"
    and m': "map_of lks' ''self'' = Some s'"
    and w: "\<forall>f. Some [(''role'', PyStr ''ADMIN'')] = Some f \<longrightarrow> f \<noteq> []
              \<longrightarrow> distinct (map fst f) \<longrightarrow>
              href s' = ''http://testserver/users?skip=''
                 @ py_str (case map_of f ''skip'' of None \<Rightarrow> PyInt 0 | Some v \<Rightarrow> v)
                 @ ''&limit=''
                 @ py_str (case map_of f ''limit'' of None \<Rightarrow> PyInt 10 | Some v \<Rightarrow> v)
                 @ concat (map (\<lambda>(k, v). ''&'' @ k @ ''='' @ py_str v)
                             [kv \<leftarrow> f. fst kv \<noteq> ''skip'' \<and> fst kv \<noteq> ''limit''])"
    by (elim exE conjE) (rule that)
  from w [THEN spec, THEN mp, THEN mp, THEN mp, OF refl h5 h6]
  have hs: "href s' = ''http://testserver/users?skip=0&limit=10&role=ADMIN''"
    by (simp add: str_int_0 str_int_10)
  from g' m' hs
  have b: "\<exists>lks s. generate_pagination_links () 0 10 25 (Some [(''role'', PyStr ''ADMIN'')]) = Inr lks
         \<and> map_of lks ''self'' = Some s
         \<and> href s = ''http://testserver/users?skip=0&limit=10&role=ADMIN''"
    by (intro exI conjI)
  note c = t [THEN conjunct2, THEN conjunct1, THEN spec, THEN mp, OF cpl_plain_run]
  from t [THEN conjunct2, THEN conjunct2, THEN mp, THEN mp, THEN mp, OF h2 h3 h4]
  obtain pl where p: "create_pagination_link ''next'' ''http://testserver/users''
                 [(''skip'', PyInt 10), (''limit'', PyInt 5)] = Inr pl"
    and q: "query_names (plink_href pl) = [''skip'', ''limit'']"
    by (elim exE conjE) (rule that)
  from p q have d: "\<exists>pl. create_pagination_link ''next'' ''http://testserver/users''
                 [(''skip'', PyInt 10), (''limit'', PyInt 5)] = Inr pl
         \<and> query_names (plink_href pl) = [''skip'', ''limit'']"
    by (intro exI conjI)
  from h1 a h5 h6 b cpl_plain_run c h2 h3 h4 d show ?thesis by (intro conjI)
qed

text \<open>
  C6. For every user identifier, \<open>create_user_links\<close> returns exactly the three links
  \<open>self\<close>, \<open>update\<close> and \<open>delete\<close>, each with the address
  \<open>http://testserver/users/{id}\<close>, the identifier in its 36-character text form.
\<close>

theorem create_user_links_exact:
  "create_user_links user_id request =
     [(''self'', \<lparr>rel = ''self'', href = ''http://testserver/users/'' @ str_uuid user_id\<rparr>),
      (''update'', \<lparr>rel = ''update'', href = ''http://testserver/users/'' @ str_uuid user_id\<rparr>),
      (''delete'', \<lparr>rel = ''delete'', href = ''http://testserver/users/'' @ str_uuid user_id\<rparr>)]
   \<and> map fst (create_user_links user_id request) = [''self'', ''update'', ''delete'']
   \<and> length (str_uuid user_id) = 36"
  by (simp add: create_user_links_def length_str_uuid)

text \<open>
  C10. For every call to \<open>generate_pagination_links\<close> with a non-empty filters
  dictionary (and \<open>limit \<noteq> 0\<close>, so that there are links), the query string of the
  \<open>self\<close> link is the parameter dictionary updated with the filters, which holds every
  filter entry, and is \<open>skip=..&limit=..\<close> followed by the filters when no filter is
  named \<open>skip\<close> or \<open>limit\<close>. The other links are the ones the call without filters
  returns, and carry only \<open>skip\<close> and \<open>limit\<close>.
\<close>

theorem filters_only_in_self:
  assumes "f \<noteq> []" and "distinct (map fst f)" and "limit \<noteq> 0"
  shows "\<exists>lks lks0 s.
      generate_pagination_links request skip limit total_items (Some f) = Inr lks
    \<and> generate_pagination_links request skip limit total_items None = Inr lks0
    \<and> map_of lks ''self'' = Some s
    \<and> href s = ''http://testserver/users?''
         @ join ''&'' (map (\<lambda>(k, v). k @ ''='' @ py_str v)
                        (dict_update [(''skip'', PyInt skip), (''limit'', PyInt limit)] f))
    \<and> (\<forall>(k, v) \<in> set f.
          (k, v) \<in> set (dict_update [(''skip'', PyInt skip), (''limit'', PyInt limit)] f))
    \<and> (''skip'' \<notin> fst ` set f \<and> ''limit'' \<notin> fst ` set f \<longrightarrow>
          href s = ''http://testserver/users?skip='' @ str_int skip @ ''&limit='' @ str_int limit
                   @ concat (map (\<lambda>(k, v). ''&'' @ k @ ''='' @ py_str v) f))
    \<and> (\<forall>k. k \<noteq> ''self'' \<longrightarrow> map_of lks k = map_of lks0 k)
    \<and> (\<forall>k l. k \<noteq> ''self'' \<longrightarrow> map_of lks k = Some l
          \<longrightarrow> query_names (href l) = [''skip'', ''limit''])"
proof -
  let ?qp = "[(''skip'', PyInt skip), (''limit'', PyInt limit)]"
  let ?g = "\<lambda>(k, v). k @ ''='' @ py_str v"
  from self_link_href [OF assms(3), of request skip total_items "Some f"] assms(1)
  obtain lks where g: "generate_pagination_links request skip limit total_items (Some f) = Inr lks"
    and m: "map_of lks ''self'' = Some \<lparr>rel = ''self'', href = ''http://testserver/users'' @ ''?'' @
        join ''&'' (map ?g (dict_update ?qp f))\<rparr>"
    by auto
  from self_link_href [OF assms(3), of request skip total_items None]
  obtain lks0 where g0: "generate_pagination_links request skip limit total_items None = Inr lks0"
    by blast
  let ?s = "\<lparr>rel = ''self'', href = ''http://testserver/users'' @ ''?'' @
        join ''&'' (map ?g (dict_update ?qp f))\<rparr>"
  have h: "href ?s = ''http://testserver/users?'' @ join ''&'' (map ?g (dict_update ?qp f))"
    by simp
  have mem: "\<forall>(k, v) \<in> set f. (k, v) \<in> set (dict_update ?qp f)"
    using dict_update_in [OF assms(2)] by blast
  have plain: "''skip'' \<notin> fst ` set f \<and> ''limit'' \<notin> fst ` set f \<longrightarrow>
          href ?s = ''http://testserver/users?skip='' @ str_int skip @ ''&limit='' @ str_int limit
                   @ concat (map (\<lambda>(k, v). ''&'' @ k @ ''='' @ py_str v) f)"
  proof
    assume "''skip'' \<notin> fst ` set f \<and> ''limit'' \<notin> fst ` set f"
    then have "fst ` set f \<inter> fst ` set ?qp = {}" by auto
    with assms(2) have "dict_update ?qp f = ?qp @ f" by (rule dict_update_fresh)
    then have "join ''&'' (map ?g (dict_update ?qp f))
        = join ''&'' (map ?g ((''skip'', PyInt skip) # (''limit'', PyInt limit) # f))" by simp
    also have "\<dots> = ''skip='' @ py_str (PyInt skip) @ ''&limit='' @ py_str (PyInt limit)
       @ concat (map (\<lambda>(k, v). ''&'' @ k @ ''='' @ py_str v) f)"
      by (rule join_skip_limit)
    finally show "href ?s = ''http://testserver/users?skip='' @ str_int skip @ ''&limit='' @ str_int limit
                   @ concat (map (\<lambda>(k, v). ''&'' @ k @ ''='' @ py_str v) f)"
      by simp
  qed
  have same: "\<forall>k. k \<noteq> ''self'' \<longrightarrow> map_of lks k = map_of lks0 k"
    using other_links_same [OF g g0] by blast
  have names: "\<forall>k l. k \<noteq> ''self'' \<longrightarrow> map_of lks k = Some l
          \<longrightarrow> query_names (href l) = [''skip'', ''limit'']"
    using other_links_names [OF g] by blast
  from g g0 m h mem plain same names show ?thesis by blast
qed

theorem filters_only_in_self_witness:
  "[(''role'', PyStr ''ADMIN'')] \<noteq> [] \<and> distinct (map fst [(''role'', PyStr ''ADMIN'')])
   \<and> (10::int) \<noteq> 0
   \<and> (\<exists>lks s n. generate_pagination_links () 0 10 25 (Some [(''role'', PyStr ''ADMIN'')]) = Inr lks
         \<and> map_of lks ''self'' = Some s
         \<and> href s = ''http://testserver/users?skip=0&limit=10&role=ADMIN''
         \<and> map_of lks ''next'' = Some n
         \<and> query_names (href n) = [''skip'', ''limit''])"
proof -
  have h1: "[(''role'', PyStr ''ADMIN'')] \<noteq> []" by simp
  have h2: "distinct (map fst [(''role'', PyStr ''ADMIN'')])" by simp
  have h3: "(10::int) \<noteq> 0" by simp
  from filters_only_in_self [OF h1 h2 h3, of "()" 0 25]
  obtain lks lks0 s where
    g: "generate_pagination_links () 0 10 25 (Some [(''role'', PyStr ''ADMIN'')]) = Inr lks"
    and m: "map_of lks ''self'' = Some s"
    and p: "''skip'' \<notin> fst ` set [(''role'', PyStr ''ADMIN'')]
          \<and> ''limit'' \<notin> fst ` set [(''role'', PyStr ''ADMIN'')] \<longrightarrow>
          href s = ''http://testserver/users?skip='' @ str_int 0 @ ''&limit='' @ str_int 10
                   @ concat (map (\<lambda>(k, v). ''&'' @ k @ ''='' @ py_str v) [(''role'', PyStr ''ADMIN'')])"
    and o: "\<forall>k l. k \<noteq> ''self'' \<longrightarrow> map_of lks k = Some l
          \<longrightarrow> query_names (href l) = [''skip'', ''limit'']"
    by (elim exE conjE) (rule that)
  have k: "''skip'' \<notin> fst ` set [(''role'', PyStr ''ADMIN'')]
          \<and> ''limit'' \<notin> fst ` set [(''role'', PyStr ''ADMIN'')]" by simp
  from p [THEN mp, OF k]
  have hs: "href s = ''http://testserver/users?skip=0&limit=10&role=ADMIN''"
    by (simp add: str_int_0 str_int_10)
  let ?N = "\<lparr>rel = ''next'', href = ''http://testserver/users?skip=10&limit=10''\<rparr>"
  from g [unfolded gpl_first_page_filtered]
  have L: "[(''self'', \<lparr>rel = ''self'', href = ''http://testserver/users?skip=0&limit=10&role=ADMIN''\<rparr>),
          (''first'', \<lparr>rel = ''first'', href = ''http://testserver/users?skip=0&limit=10''\<rparr>),
          (''last'', \<lparr>rel = ''last'', href = ''http://testserver/users?skip=20&limit=10''\<rparr>),
          (''next'', ?N)] = lks"
    by (simp only: sum.inject)
  have nx: "map_of lks ''next'' = Some ?N"
    unfolding L [symmetric] by simp
  have ne: "''next'' \<noteq> ''self''" by simp
  from o [THEN spec, THEN spec, THEN mp, THEN mp, OF ne nx]
  have nn: "query_names (href ?N) = [''skip'', ''limit'']" .
  from g m hs nx nn
  have a: "\<exists>lks s n. generate_pagination_links () 0 10 25 (Some [(''role'', PyStr ''ADMIN'')]) = Inr lks
         \<and> map_of lks ''self'' = Some s
         \<and> href s = ''http://testserver/users?skip=0&limit=10&role=ADMIN''
         \<and> map_of lks ''next'' = Some n
         \<and> query_names (href n) = [''skip'', ''limit'']"
    by (intro exI conjI)
  from h1 h2 h3 a show ?thesis by (intro conjI)
qed

section \<open>Properties of the route handlers\<close>

lemma str_nat_400: "str_nat 400 = ''400''"
  by (simp add: str_nat_small str_nat_big digit_char_def)

lemma register_existing_email:
  assumes "get_by_email svc db (UserCreate.email user_data) = Inr (Some u)"
  shows "register svc user_data request db
           = (Inl (HTTPException 500 ''400: Email already registered''), db)"
  using assms by (simp add: register_def register_try_def str_nat_400)

lemma get_by_email_ann:
  "get_by_email memory_UserService two_accounts (UserCreate.email ann_again) = Inr (Some ann)"
  by (simp add: memory_UserService_def two_accounts_def ann_again_def find_by_def ann_def)

lemma bob_is_locked:
  "is_account_locked memory_UserService two_accounts (username bob_login) = Inr True"
  by (simp add: memory_UserService_def two_accounts_def bob_login_def find_by_def ann_def bob_def)

lemma ann_is_not_locked:
  "is_account_locked memory_UserService two_accounts (username ann_wrong_password) = Inr False"
  "is_account_locked memory_UserService two_accounts (username ann_login) = Inr False"
  by (simp_all add: memory_UserService_def two_accounts_def ann_wrong_password_def ann_login_def
        find_by_def ann_def)

lemma ann_wrong_password_rejected:
  "login_user memory_UserService two_accounts (username ann_wrong_password)
     (OAuth2PasswordRequestForm.password ann_wrong_password) = (Inr None, two_accounts)"
  by (simp add: memory_UserService_def two_accounts_def ann_wrong_password_def find_by_def ann_def)

lemma ann_authenticates:
  "login_user memory_UserService two_accounts (username ann_login)
     (OAuth2PasswordRequestForm.password ann_login) = (Inr (Some ann), two_accounts)"
  by (simp add: memory_UserService_def two_accounts_def ann_login_def find_by_def ann_def)

lemma ann_token:
  "create_access_token (spec_JWTService 1000)
      [(''sub'', PyStr (User.email ann)), (''role'', PyStr (name (role ann)))]
      (60 * access_token_expire_minutes settings30)
    = Inr \<lparr>payload = [(''sub'', PyStr ''ann@example.com''), (''role'', PyStr ''ADMIN''),
                       (''exp'', PyInt 2800)]\<rparr>"
  by (simp add: spec_JWTService_def spec_create_access_token_def settings30_def ann_def)

text \<open>
  C3. Registration with an email that already belongs to a user. \<open>register\<close> raises
  \<open>HTTPException(400, "Email already registered")\<close> inside its \<open>try\<close> block, and its only
  handler, \<open>except Exception\<close>, catches it and raises \<open>HTTPException(500)\<close> with the text
  of the first as detail: the caller gets the internal-failure status, not the client
  error. The database is unchanged: no second record is created.
\<close>

theorem register_duplicate_email_500:
  "register memory_UserService ann_again () two_accounts
     = (Inl (HTTPException 500 ''400: Email already registered''), two_accounts)"
  using get_by_email_ann by (rule register_existing_email)

text \<open>
  C7. The access token of a successful login, with the token issuer of the spec: its
  payload is exactly \<open>sub\<close>, the email address of the user \<open>login_user\<close> returned,
  \<open>role\<close>, the name of that user's role, and the expiry claim, the current time plus
  the configured minutes.
\<close>

theorem login_token_claims:
  assumes "login svc (spec_JWTService now) settings form_data session = (Inr response, session')"
  shows "\<exists>u. login_user svc session (username form_data)
                (OAuth2PasswordRequestForm.password form_data) = (Inr (Some u), session')
     \<and> payload (access_token response)
         = [(''sub'', PyStr (User.email u)), (''role'', PyStr (name (role u))),
            (''exp'', PyInt (now + 60 * access_token_expire_minutes settings))]
     \<and> token_type response = ''bearer''"
  using assms
  by (auto simp: login_def login_try_def timedelta_minutes_def spec_JWTService_def
        spec_create_access_token_def
      split: sum.splits option.splits prod.splits exn.splits if_splits)

theorem login_token_claims_witness:
  "login memory_UserService (spec_JWTService 1000) settings30 ann_login two_accounts
     = (Inr \<lparr>access_token =
               \<lparr>payload = [(''sub'', PyStr ''ann@example.com''), (''role'', PyStr ''ADMIN''),
                            (''exp'', PyInt 2800)]\<rparr>,
             token_type = ''bearer''\<rparr>, two_accounts)
   \<and> (\<exists>u. login_user memory_UserService two_accounts (username ann_login)
                (OAuth2PasswordRequestForm.password ann_login) = (Inr (Some u), two_accounts)
         \<and> payload (access_token
               \<lparr>access_token =
                  \<lparr>payload = [(''sub'', PyStr ''ann@example.com''),
                               (''role'', PyStr ''ADMIN''), (''exp'', PyInt 2800)]\<rparr>,
                token_type = ''bearer''\<rparr>)
             = [(''sub'', PyStr (User.email u)), (''role'', PyStr (name (role u))),
                (''exp'', PyInt (1000 + 60 * access_token_expire_minutes settings30))])"
proof -
  have L: "login memory_UserService (spec_JWTService 1000) settings30 ann_login two_accounts
     = (Inr \<lparr>access_token =
               \<lparr>payload = [(''sub'', PyStr ''ann@example.com''), (''role'', PyStr ''ADMIN''),
                            (''exp'', PyInt 2800)]\<rparr>,
             token_type = ''bearer''\<rparr>, two_accounts)"
    by (simp add: login_def login_try_def ann_is_not_locked ann_authenticates ann_token
          timedelta_minutes_def)
  from login_token_claims [OF L]
  obtain u where "login_user memory_UserService two_accounts (username ann_login)
                (OAuth2PasswordRequestForm.password ann_login) = (Inr (Some u), two_accounts)"
    and "payload (access_token
               \<lparr>access_token =
                  \<lparr>payload = [(''sub'', PyStr ''ann@example.com''),
                               (''role'', PyStr ''ADMIN''), (''exp'', PyInt 2800)]\<rparr>,
                token_type = ''bearer''\<rparr>)
             = [(''sub'', PyStr (User.email u)), (''role'', PyStr (name (role u))),
                (''exp'', PyInt (1000 + 60 * access_token_expire_minutes settings30))]"
    by (elim exE conjE) (rule that)
  with L show ?thesis by (intro conjI exI)
qed

text \<open>
  C8. \<open>login\<close> fails with status 400 and the account-locked detail when
  \<open>is_account_locked\<close> answers true, whatever \<open>login_user\<close> would do and with the session
  as it was (the credentials are not looked at); fails with status 401 when the account
  is not locked and \<open>login_user\<close> returns no user; and otherwise, the token issued,
  returns that token with the type \<open>bearer\<close>.
\<close>

theorem login_outcomes:
  "(is_account_locked svc session (username form_data) = Inr True \<longrightarrow>
      login svc jwt settings form_data session
        = (Inl (HTTPException 400 ''Account locked due to too many failed login attempts.''),
           session))
   \<and> (is_account_locked svc session (username form_data) = Inr False \<longrightarrow>
        login_user svc session (username form_data) (OAuth2PasswordRequestForm.password form_data)
          = (Inr None, session') \<longrightarrow>
        login svc jwt settings form_data session
          = (Inl (HTTPException 401 ''Incorrect email or password''), session'))
   \<and> (is_account_locked svc session (username form_data) = Inr False \<longrightarrow>
        login_user svc session (username form_data) (OAuth2PasswordRequestForm.password form_data)
          = (Inr (Some u), session') \<longrightarrow>
        create_access_token jwt
            [(''sub'', PyStr (User.email u)), (''role'', PyStr (name (role u)))]
            (60 * access_token_expire_minutes settings) = Inr tok \<longrightarrow>
        login svc jwt settings form_data session
          = (Inr \<lparr>access_token = tok, token_type = ''bearer''\<rparr>, session'))"
  by (simp add: login_def login_try_def timedelta_minutes_def)

theorem login_outcomes_witness:
  "is_account_locked memory_UserService two_accounts (username bob_login) = Inr True
   \<and> login memory_UserService (spec_JWTService 1000) settings30 bob_login two_accounts
       = (Inl (HTTPException 400 ''Account locked due to too many failed login attempts.''),
          two_accounts)
   \<and> is_account_locked memory_UserService two_accounts (username ann_wrong_password) = Inr False
   \<and> login_user memory_UserService two_accounts (username ann_wrong_password)
        (OAuth2PasswordRequestForm.password ann_wrong_password) = (Inr None, two_accounts)
   \<and> login memory_UserService (spec_JWTService 1000) settings30 ann_wrong_password two_accounts
       = (Inl (HTTPException 401 ''Incorrect email or password''), two_accounts)
   \<and> login_user memory_UserService two_accounts (username ann_login)
        (OAuth2PasswordRequestForm.password ann_login) = (Inr (Some ann), two_accounts)
   \<and> login memory_UserService (spec_JWTService 1000) settings30 ann_login two_accounts
       = (Inr \<lparr>access_token =
                 \<lparr>payload = [(''sub'', PyStr ''ann@example.com''), (''role'', PyStr ''ADMIN''),
                              (''exp'', PyInt 2800)]\<rparr>,
               token_type = ''bearer''\<rparr>, two_accounts)"
proof -
  note a = login_outcomes [where svc = memory_UserService and session = two_accounts
      and form_data = bob_login and jwt = "spec_JWTService 1000" and settings = settings30,
      THEN conjunct1, THEN mp, OF bob_is_locked]
  note b = login_outcomes [where svc = memory_UserService and session = two_accounts
      and form_data = ann_wrong_password and jwt = "spec_JWTService 1000"
      and settings = settings30 and session' = two_accounts,
      THEN conjunct2, THEN conjunct1, THEN mp, THEN mp,
      OF ann_is_not_locked(1) ann_wrong_password_rejected]
  note c = login_outcomes [where svc = memory_UserService and session = two_accounts
      and form_data = ann_login and jwt = "spec_JWTService 1000"
      and settings = settings30 and session' = two_accounts and u = ann,
      THEN conjunct2, THEN conjunct2, THEN mp, THEN mp, THEN mp,
      OF ann_is_not_locked(2) ann_authenticates ann_token]
  from bob_is_locked a ann_is_not_locked(1) ann_wrong_password_rejected b ann_authenticates c
  show ?thesis by (intro conjI)
qed

section \<open>Properties of the mail dispatcher\<close>










end
